theory Spec2Isabelle
  imports Complex_Main
begin

section \<open>Python values shared by the three entry points\<close>

text \<open>
  The repository holds three variants of one pipeline: \<^verbatim>\<open>app_gemini_only.py\<close> (structured
  estimate validated by Pydantic), \<^verbatim>\<open>app.py\<close> (Streamlit, text query plus nutrition database)
  and \<^verbatim>\<open>main.py\<close> (the same as a console program). Numbers are Python floats in the source;
  here they are exact reals, so rounding, NaN and the infinities are outside the model.
  Texts are lists of characters with code points below 256.
\<close>

datatype json =
    JNull
  | JBool bool
  | JNum real
  | JStr string
  | JArr "json list"
  | JObj "(string \<times> json) list"

text \<open>A key of a line error's location: a field name or a list index.\<close>

datatype loc_item = LKey string | LIdx nat

text \<open>
  One entry of \<^verbatim>\<open>pydantic.ValidationError.errors()\<close>: the error type, the location and the
  input the failing validator was given (for a missing field, the enclosing object).
\<close>

datatype line_error = LineError (etype: string) (loc: "loc_item list") (input: json)

datatype verr =
    JsonType
  | JsonInvalid string
  | SchemaErrors "line_error list"

text \<open>How a call to an external service fails: in transport, or with a non-success status.\<close>

datatype failure =
    Timeout
  | ConnectionFailed string
  | BadStatus nat string

text \<open>
  The exceptions that leave the functions modelled here. The first four are raised by the
  repository's own lines and the built-ins they call, \<open>JSONDecodeError\<close> by \<^verbatim>\<open>resp.json()\<close>
  and \<open>ValidationError\<close> by Pydantic; \<open>SDKError\<close> is whatever the provider SDK raises
  inside an upload or a generation call, \<open>RequestException\<close> what \<^verbatim>\<open>requests.get\<close> raises,
  \<open>OSError\<close> a failed file operation.
\<close>

datatype exn =
    ValueError string
  | RuntimeError string
  | TypeError
  | AttributeError
  | JSONDecodeError
  | ValidationError verr
  | SDKError failure
  | RequestException failure
  | OSError string

text \<open>Python truthiness of a \<^verbatim>\<open>str\<close> and of an \<^verbatim>\<open>Optional[str]\<close>.\<close>

definition truthy :: "string \<Rightarrow> bool" where
  "truthy s = (s \<noteq> [])"

definition truthy_opt :: "string option \<Rightarrow> bool" where
  "truthy_opt k = (case k of None \<Rightarrow> False | Some s \<Rightarrow> truthy s)"

section \<open>Text helpers of the query builders\<close>

text \<open>\<^verbatim>\<open>str.isspace\<close> on one character, for code points below 256.\<close>

definition py_isspace :: "char \<Rightarrow> bool" where
  "py_isspace c =
     (let n = (of_char c :: nat)
      in (9 \<le> n \<and> n \<le> 13) \<or> (28 \<le> n \<and> n \<le> 32) \<or> n = 133 \<or> n = 160)"

text \<open>\<^verbatim>\<open>s.strip()\<close>: whitespace is dropped at both ends, never inside.\<close>

definition py_strip :: "string \<Rightarrow> string" where
  "py_strip s = rev (dropWhile py_isspace (rev (dropWhile py_isspace s)))"

text \<open>\<^verbatim>\<open>s.replace(a, b)\<close> for one-character \<open>a\<close> and \<open>b\<close>.\<close>

definition py_replace_char :: "char \<Rightarrow> char \<Rightarrow> string \<Rightarrow> string" where
  "py_replace_char a b s = map (\<lambda>c. if c = a then b else c) s"

definition LF :: char where
  "LF = CHR 0x0A"

text \<open>\<^verbatim>\<open>(response.text or "").strip().replace("\n", " ")\<close>\<close>

definition clean_query :: "string option \<Rightarrow> string" where
  "clean_query text =
     py_replace_char LF (CHR '' '') (py_strip (case text of None \<Rightarrow> [] | Some s \<Rightarrow> s))"

section \<open>The provider and the trace of external calls\<close>

text \<open>
  The provider is an environment: what an upload of a path answers and what a generation
  request for a model name and an uploaded file answers (the response's \<^verbatim>\<open>text\<close>, which the
  SDK gives as \<^verbatim>\<open>None\<close> when the response has no text part). Every external call a function
  performs is appended to a trace, so that "no call was made" and "one attempt was made"
  are statements about the trace.
\<close>

record provider =
  files_upload :: "string \<Rightarrow> failure + string"
  generate_content :: "string \<Rightarrow> string \<Rightarrow> failure + string option"

datatype call =
    FilesUpload string
  | GenerateContent string string
  | HttpGet string

datatype client = Client string

text \<open>
  \<^verbatim>\<open>build_food_query_from_image\<close> of \<^verbatim>\<open>app.py\<close> and \<^verbatim>\<open>main.py\<close>; the two differ in the model
  name and in the wording of the message. In \<^verbatim>\<open>app.py\<close> the module-level client may be
  \<^verbatim>\<open>None\<close>, and the attribute access on it raises.
\<close>

definition build_food_query :: "string \<Rightarrow> string \<Rightarrow> provider \<Rightarrow> string \<Rightarrow> call list
    \<Rightarrow> (exn + string) \<times> call list" where
  "build_food_query model_name msg prov image_path tr =
     (case files_upload prov image_path of
        Inl f \<Rightarrow> (Inl (SDKError f), tr @ [FilesUpload image_path])
      | Inr uploaded_file \<Rightarrow>
          (let tr1 = tr @ [FilesUpload image_path];
               tr2 = tr1 @ [GenerateContent model_name uploaded_file]
           in case generate_content prov model_name uploaded_file of
                Inl f \<Rightarrow> (Inl (SDKError f), tr2)
              | Inr text \<Rightarrow>
                  (let query = clean_query text
                   in if \<not> truthy query then (Inl (RuntimeError msg), tr2)
                      else (Inr query, tr2))))"

definition app_build_food_query_from_image :: "client option \<Rightarrow> provider \<Rightarrow> string \<Rightarrow> call list
    \<Rightarrow> (exn + string) \<times> call list" where
  "app_build_food_query_from_image cl prov image_path tr =
     (case cl of
        None \<Rightarrow> (Inl AttributeError, tr)
      | Some _ \<Rightarrow>
          build_food_query ''gemini-2.5-flash'' ''Gemini returned an empty query.''
            prov image_path tr)"


section \<open>The schema of \<^verbatim>\<open>app_gemini_only.py\<close> and its validation\<close>

record FoodItem =
  name :: string
  quantity_g :: real
  calories_kcal :: real
  protein_g :: real
  carbs_g :: real
  fat_g :: real
  reasoning_short :: "string option"

record NutritionEstimate =
  items :: "FoodItem list"
  total_calories_kcal :: real
  total_protein_g :: real
  total_carbs_g :: real
  total_fat_g :: real
  "notes" :: "string option"

text \<open>
  What \<^verbatim>\<open>model_validate_json\<close> does is Pydantic's, not the repository's; it is modelled from
  the class declarations above and Pydantic's rules for JSON input in its default (lax)
  mode: a field without a default is required, a field with \<^verbatim>\<open>default=None\<close> may be absent,
  unknown keys are ignored, no declared field carries a bound, every failing field adds a
  line error, and the model is built only when there is none. The two parts of the library
  that are grammars (reading a text as JSON, reading a string as a number) are parameters.
\<close>

record pydantic_core =
  from_json :: "string \<Rightarrow> json option"
  str_as_float :: "string \<Rightarrow> real option"

type_synonym 'a vres = "line_error list + 'a"

text \<open>A key given twice in an object keeps its last value.\<close>

definition lookup :: "(string \<times> json) list \<Rightarrow> string \<Rightarrow> json option" where
  "lookup kvs k = map_of (rev kvs) k"

text \<open>Applies a validated constructor to a validated argument, keeping the errors of both.\<close>

definition ap :: "('a \<Rightarrow> 'b) vres \<Rightarrow> 'a vres \<Rightarrow> 'b vres" where
  "ap rf rx =
     (case rf of
        Inr f \<Rightarrow> (case rx of Inr x \<Rightarrow> Inr (f x) | Inl ex \<Rightarrow> Inl ex)
      | Inl ef \<Rightarrow> (case rx of Inr x \<Rightarrow> Inl ef | Inl ex \<Rightarrow> Inl (ef @ ex)))"

text \<open>Prefixes the location of every error with the field or index it was found under.\<close>

definition at_loc :: "loc_item \<Rightarrow> 'a vres \<Rightarrow> 'a vres" where
  "at_loc l r =
     (case r of
        Inl es \<Rightarrow> Inl (map (\<lambda>e. LineError (etype e) (l # loc e) (input e)) es)
      | Inr v \<Rightarrow> Inr v)"

text \<open>
  A \<^verbatim>\<open>float\<close> field takes a JSON number, and in lax mode also a JSON boolean and a string
  that reads as a number.
\<close>

definition validate_float :: "(string \<Rightarrow> real option) \<Rightarrow> json \<Rightarrow> real vres" where
  "validate_float sf v =
     (case v of
        JNum r \<Rightarrow> Inr r
      | JBool b \<Rightarrow> Inr (if b then 1 else 0)
      | JStr s \<Rightarrow>
          (case sf s of
             Some r \<Rightarrow> Inr r
           | None \<Rightarrow> Inl [LineError ''float_parsing'' [] v])
      | _ \<Rightarrow> Inl [LineError ''float_type'' [] v])"

definition validate_str :: "json \<Rightarrow> string vres" where
  "validate_str v =
     (case v of JStr s \<Rightarrow> Inr s | _ \<Rightarrow> Inl [LineError ''string_type'' [] v])"

definition validate_optional_str :: "json \<Rightarrow> string option vres" where
  "validate_optional_str v =
     (case v of
        JNull \<Rightarrow> Inr None
      | JStr s \<Rightarrow> Inr (Some s)
      | _ \<Rightarrow> Inl [LineError ''string_type'' [] v])"

definition required :: "(string \<times> json) list \<Rightarrow> string \<Rightarrow> (json \<Rightarrow> 'a vres) \<Rightarrow> 'a vres" where
  "required kvs k validate =
     (case lookup kvs k of
        None \<Rightarrow> Inl [LineError ''missing'' [LKey k] (JObj kvs)]
      | Some v \<Rightarrow> at_loc (LKey k) (validate v))"

definition with_default :: "(string \<times> json) list \<Rightarrow> string \<Rightarrow> 'a \<Rightarrow> (json \<Rightarrow> 'a vres) \<Rightarrow> 'a vres" where
  "with_default kvs k d validate =
     (case lookup kvs k of
        None \<Rightarrow> Inr d
      | Some v \<Rightarrow> at_loc (LKey k) (validate v))"

definition validate_FoodItem :: "(string \<Rightarrow> real option) \<Rightarrow> json \<Rightarrow> FoodItem vres" where
  "validate_FoodItem sf v =
     (case v of
        JObj kvs \<Rightarrow>
          ap (ap (ap (ap (ap (ap (ap
            (Inr (\<lambda>n q c p cb f r.
               \<lparr>name = n, quantity_g = q, calories_kcal = c, protein_g = p,
                carbs_g = cb, fat_g = f, reasoning_short = r\<rparr>))
            (required kvs ''name'' validate_str))
            (required kvs ''quantity_g'' (validate_float sf)))
            (required kvs ''calories_kcal'' (validate_float sf)))
            (required kvs ''protein_g'' (validate_float sf)))
            (required kvs ''carbs_g'' (validate_float sf)))
            (required kvs ''fat_g'' (validate_float sf)))
            (with_default kvs ''reasoning_short'' None validate_optional_str)
      | _ \<Rightarrow> Inl [LineError ''model_type'' [] v])"

text \<open>The elements of \<^verbatim>\<open>List[FoodItem]\<close>, each under its index.\<close>

fun validate_elements :: "(string \<Rightarrow> real option) \<Rightarrow> nat \<Rightarrow> json list \<Rightarrow> FoodItem list vres" where
  "validate_elements sf i [] = Inr []"
| "validate_elements sf i (x # xs) =
     ap (ap (Inr (#)) (at_loc (LIdx i) (validate_FoodItem sf x)))
        (validate_elements sf (Suc i) xs)"

definition validate_list :: "(string \<Rightarrow> real option) \<Rightarrow> json \<Rightarrow> FoodItem list vres" where
  "validate_list sf v =
     (case v of
        JArr xs \<Rightarrow> validate_elements sf 0 xs
      | _ \<Rightarrow> Inl [LineError ''list_type'' [] v])"

definition validate_NutritionEstimate :: "(string \<Rightarrow> real option) \<Rightarrow> json \<Rightarrow> NutritionEstimate vres" where
  "validate_NutritionEstimate sf v =
     (case v of
        JObj kvs \<Rightarrow>
          ap (ap (ap (ap (ap (ap
            (Inr (\<lambda>its tc tp tcb tf n.
               \<lparr>items = its, total_calories_kcal = tc, total_protein_g = tp,
                total_carbs_g = tcb, total_fat_g = tf, notes = n\<rparr>))
            (required kvs ''items'' (validate_list sf)))
            (required kvs ''total_calories_kcal'' (validate_float sf)))
            (required kvs ''total_protein_g'' (validate_float sf)))
            (required kvs ''total_carbs_g'' (validate_float sf)))
            (required kvs ''total_fat_g'' (validate_float sf)))
            (with_default kvs ''notes'' None validate_optional_str)
      | _ \<Rightarrow> Inl [LineError ''model_type'' [] v])"

text \<open>\<^verbatim>\<open>NutritionEstimate.model_validate_json(response.text)\<close>\<close>

definition model_validate_json :: "pydantic_core \<Rightarrow> string option \<Rightarrow> exn + NutritionEstimate" where
  "model_validate_json pc text =
     (case text of
        None \<Rightarrow> Inl (ValidationError JsonType)
      | Some s \<Rightarrow>
          (case from_json pc s of
             None \<Rightarrow> Inl (ValidationError (JsonInvalid s))
           | Some doc \<Rightarrow>
               (case validate_NutritionEstimate (str_as_float pc) doc of
                  Inl es \<Rightarrow> Inl (ValidationError (SchemaErrors es))
                | Inr est \<Rightarrow> Inr est)))"

section \<open>\<^verbatim>\<open>app_gemini_only.py\<close>: the client and the estimation call\<close>

text \<open>
  The key comes from the secret store and, when that lookup raises, from the environment;
  the client exists only for a non-empty key other than the placeholder.
\<close>

definition gemini_only_api_key :: "(string \<rightharpoonup> string) \<Rightarrow> (string \<rightharpoonup> string) \<Rightarrow> string option" where
  "gemini_only_api_key secrets environ =
     (case secrets ''GEMINI_API_KEY'' of
        Some k \<Rightarrow> Some k
      | None \<Rightarrow> environ ''GEMINI_API_KEY'')"

definition gemini_only_client :: "string option \<Rightarrow> client option" where
  "gemini_only_client key =
     (case key of
        None \<Rightarrow> None
      | Some k \<Rightarrow>
          if truthy k \<and> k \<noteq> ''YOUR_GEMINI_KEY_HERE'' then Some (Client k) else None)"

definition estimate_nutrition_with_gemini :: "pydantic_core \<Rightarrow> client option \<Rightarrow> provider
    \<Rightarrow> string \<Rightarrow> call list \<Rightarrow> (exn + NutritionEstimate) \<times> call list" where
  "estimate_nutrition_with_gemini pc cl prov image_path tr =
     (case cl of
        None \<Rightarrow> (Inl (ValueError ''Gemini API Key not configured.''), tr)
      | Some _ \<Rightarrow>
          (case files_upload prov image_path of
             Inl f \<Rightarrow> (Inl (SDKError f), tr @ [FilesUpload image_path])
           | Inr uploaded_file \<Rightarrow>
               (let tr1 = tr @ [FilesUpload image_path];
                    tr2 = tr1 @ [GenerateContent ''gemini-2.5-pro'' uploaded_file]
                in case generate_content prov ''gemini-2.5-pro'' uploaded_file of
                     Inl f \<Rightarrow> (Inl (SDKError f), tr2)
                   | Inr text \<Rightarrow> (model_validate_json pc text, tr2))))"

section \<open>Uploads, temporary files and the screen\<close>

record uploaded_file =
  file_name :: string
  getvalue :: string

text \<open>
  \<^verbatim>\<open>st.file_uploader(..., type=[...])\<close> is Streamlit's: the widget refuses a file whose
  extension is not in \<open>type\<close>, compared in lower case, and the script then has no file. The
  extension is what follows the last dot of a name that neither starts nor ends with it.
\<close>

definition lower_char :: "char \<Rightarrow> char" where
  "lower_char c =
     (case map_of (zip ''ABCDEFGHIJKLMNOPQRSTUVWXYZ'' ''abcdefghijklmnopqrstuvwxyz'') c of
        None \<Rightarrow> c
      | Some l \<Rightarrow> l)"

definition extension :: "string \<Rightarrow> string option" where
  "extension nm =
     (let r = rev nm;
          ext = takeWhile (\<lambda>c. c \<noteq> CHR ''.'') r;
          rest = dropWhile (\<lambda>c. c \<noteq> CHR ''.'') r
      in if rest = [] \<or> tl rest = [] \<or> ext = [] then None
         else Some (map lower_char (rev ext)))"

definition file_uploader :: "string list \<Rightarrow> uploaded_file option \<Rightarrow> uploaded_file option" where
  "file_uploader types chosen =
     (case chosen of
        None \<Rightarrow> None
      | Some f \<Rightarrow>
          (case extension (file_name f) of
             None \<Rightarrow> None
           | Some ext \<Rightarrow> if ext \<in> set types then Some f else None))"

text \<open>\<^verbatim>\<open>name.split('.')[-1]\<close>: the whole name when it has no dot.\<close>

definition split_last :: "string \<Rightarrow> string" where
  "split_last nm = rev (takeWhile (\<lambda>c. c \<noteq> CHR ''.'') (rev nm))"

text \<open>
  \<^verbatim>\<open>tempfile.NamedTemporaryFile(delete=False, suffix=...)\<close> creates a file and gives its path,
  or raises; writing to it may raise as well. Both outcomes belong to the environment.
\<close>

record tempfile_lib =
  named_temporary_file :: "string \<Rightarrow> string + string"
  tmp_write :: "string \<Rightarrow> string \<Rightarrow> string option"

text \<open>What a run did to the file system, in order.\<close>

datatype fs_event =
    Created string
  | Wrote string string
  | Removed string

datatype ui =
    ShownMissingKey
  | ShownConfigError
  | ShownWarning
  | ShownImage
  | ShownError exn
  | ShownEstimate NutritionEstimate
  | ShownQuery string
  | ShownTotal real json
  | ShownCleanup

record world =
  files :: "string set"
  fs_log :: "fs_event list"
  trace :: "call list"
  screen :: "ui list"

text \<open>The file of \<^verbatim>\<open>NamedTemporaryFile(delete=False)\<close> exists from its creation on.\<close>

definition create_tmp :: "string \<Rightarrow> world \<Rightarrow> world" where
  "create_tmp p w = w\<lparr>files := insert p (files w), fs_log := fs_log w @ [Created p]\<rparr>"

definition wrote_tmp :: "string \<Rightarrow> string \<Rightarrow> world \<Rightarrow> world" where
  "wrote_tmp p bytes w = w\<lparr>fs_log := fs_log w @ [Wrote p bytes]\<rparr>"

definition show_ui :: "ui \<Rightarrow> world \<Rightarrow> world" where
  "show_ui u w = w\<lparr>screen := screen w @ [u]\<rparr>"

text \<open>
  The \<^verbatim>\<open>finally\<close> block of \<^verbatim>\<open>main\<close>: \<open>None\<close> when the name \<^verbatim>\<open>tmp_path\<close> was never bound.
\<close>

definition finally_cleanup :: "string option \<Rightarrow> world \<Rightarrow> world" where
  "finally_cleanup tmp_path w =
     (case tmp_path of
        None \<Rightarrow> w
      | Some p \<Rightarrow>
          if p \<in> files w
          then show_ui ShownCleanup
                 (w\<lparr>files := files w - {p}, fs_log := fs_log w @ [Removed p]\<rparr>)
          else w)"

text \<open>
  One run of \<^verbatim>\<open>main\<close> of \<^verbatim>\<open>app_gemini_only.py\<close>: the file the user chose and whether the
  analyse button was pressed are the inputs of the run.
\<close>

definition main :: "pydantic_core \<Rightarrow> client option \<Rightarrow> provider \<Rightarrow> tempfile_lib
    \<Rightarrow> uploaded_file option \<Rightarrow> bool \<Rightarrow> world \<Rightarrow> world" where
  "main pc cl prov tf chosen analyze_button w =
     (case cl of
        None \<Rightarrow> show_ui ShownMissingKey w
      | Some _ \<Rightarrow>
          (case file_uploader [''jpg'', ''jpeg'', ''png'', ''webp''] chosen of
             None \<Rightarrow> w
           | Some up \<Rightarrow>
               (let w0 = show_ui ShownImage w
                in if \<not> analyze_button then w0
                   else
                     (case named_temporary_file tf (CHR ''.'' # split_last (file_name up)) of
                        Inl d \<Rightarrow> finally_cleanup None (show_ui (ShownError (OSError d)) w0)
                      | Inr tmp_path \<Rightarrow>
                          (let w1 = create_tmp tmp_path w0
                           in case tmp_write tf tmp_path (getvalue up) of
                                Some d \<Rightarrow>
                                  finally_cleanup None (show_ui (ShownError (OSError d)) w1)
                              | None \<Rightarrow>
                                  (let w2 = wrote_tmp tmp_path (getvalue up) w1
                                   in case estimate_nutrition_with_gemini pc cl prov tmp_path
                                             (trace w2) of
                                        (Inl e, tr) \<Rightarrow>
                                          finally_cleanup (Some tmp_path)
                                            (show_ui (ShownError e) (w2\<lparr>trace := tr\<rparr>))
                                      | (Inr estimate, tr) \<Rightarrow>
                                          finally_cleanup (Some tmp_path)
                                            (show_ui (ShownEstimate estimate)
                                               (w2\<lparr>trace := tr\<rparr>))))))))"

section \<open>The nutrition database of \<^verbatim>\<open>app.py\<close> and \<^verbatim>\<open>main.py\<close>\<close>

record http_response =
  status_code :: nat
  body_text :: string
  body_json :: "json option"

text \<open>
  \<^verbatim>\<open>requests\<close> and the built-in \<^verbatim>\<open>float\<close> are the environment: the URL quoting, the answer to a
  GET of a URL under an API key, and the reading of a string as a number.
\<close>

record web =
  quote :: "string \<Rightarrow> string"
  http_get :: "string \<Rightarrow> string option \<Rightarrow> failure + http_response"
  float_of_str :: "string \<Rightarrow> real option"

text \<open>The decimal writing of a status code in a message.\<close>

function str_of_nat :: "nat \<Rightarrow> string" where
  "str_of_nat n =
     (if n < 10 then [''0123456789'' ! n]
      else str_of_nat (n div 10) @ [''0123456789'' ! (n mod 10)])"
  by pat_completeness auto
termination
  by (relation "measure id") auto

text \<open>\<^verbatim>\<open>obj.get(k, d)\<close>, which only a \<^verbatim>\<open>dict\<close> has.\<close>

definition dict_get :: "json \<Rightarrow> string \<Rightarrow> json \<Rightarrow> exn + json" where
  "dict_get obj k d =
     (case obj of
        JObj kvs \<Rightarrow> Inr (case lookup kvs k of None \<Rightarrow> d | Some v \<Rightarrow> v)
      | _ \<Rightarrow> Inl AttributeError)"

text \<open>What a \<^verbatim>\<open>for\<close> over a decoded JSON value visits: a dict gives its keys, a string its characters.\<close>

definition py_iter :: "json \<Rightarrow> exn + json list" where
  "py_iter v =
     (case v of
        JArr xs \<Rightarrow> Inr xs
      | JObj kvs \<Rightarrow> Inr (map JStr (rev (remdups (rev (map fst kvs)))))
      | JStr s \<Rightarrow> Inr (map (\<lambda>c. JStr [c]) s)
      | _ \<Rightarrow> Inl TypeError)"

definition py_float :: "(string \<Rightarrow> real option) \<Rightarrow> json \<Rightarrow> exn + real" where
  "py_float fs v =
     (case v of
        JNum r \<Rightarrow> Inr r
      | JBool b \<Rightarrow> Inr (if b then 1 else 0)
      | JStr s \<Rightarrow>
          (case fs s of
             Some r \<Rightarrow> Inr r
           | None \<Rightarrow>
               Inl (ValueError (''could not convert string to float: ''
                      @ [CHR 0x27] @ s @ [CHR 0x27])))
      | _ \<Rightarrow> Inl TypeError)"

text \<open>\<^verbatim>\<open>sum(float(item.get("calories", 0)) for item in items)\<close>, from the accumulator on.\<close>

fun sum_calories :: "(string \<Rightarrow> real option) \<Rightarrow> real \<Rightarrow> json list \<Rightarrow> exn + real" where
  "sum_calories fs acc [] = Inr acc"
| "sum_calories fs acc (item # rest) =
     (case dict_get item ''calories'' (JNum 0) of
        Inl e \<Rightarrow> Inl e
      | Inr v \<Rightarrow>
          (case py_float fs v of
             Inl e \<Rightarrow> Inl e
           | Inr c \<Rightarrow> sum_calories fs (acc + c) rest))"

text \<open>The three lines after the status check, shared by both variants: \<open>(items, total)\<close>.\<close>

definition items_and_total :: "(string \<Rightarrow> real option) \<Rightarrow> json \<Rightarrow> exn + json \<times> real" where
  "items_and_total fs data =
     (case dict_get data ''items'' (JArr []) of
        Inl e \<Rightarrow> Inl e
      | Inr its \<Rightarrow>
          (case py_iter its of
             Inl e \<Rightarrow> Inl e
           | Inr xs \<Rightarrow>
               (case sum_calories fs 0 xs of
                  Inl e \<Rightarrow> Inl e
                | Inr total_calories \<Rightarrow> Inr (its, total_calories))))"

definition api_url :: string where
  "api_url = ''https://api.calorieninjas.com/v1/nutrition?query=''"

text \<open>\<^verbatim>\<open>call_calorieninjas\<close> of \<^verbatim>\<open>app.py\<close>: the decoded body and the total.\<close>

definition call_calorieninjas :: "web \<Rightarrow> string option \<Rightarrow> string \<Rightarrow> call list
    \<Rightarrow> (exn + json \<times> real) \<times> call list" where
  "call_calorieninjas wb api_key query tr =
     (let url = api_url @ quote wb query;
          tr1 = tr @ [HttpGet url]
      in case http_get wb url api_key of
           Inl f \<Rightarrow> (Inl (RequestException f), tr1)
         | Inr resp \<Rightarrow>
             if status_code resp \<noteq> 200
             then (Inl (RuntimeError (''CalorieNinjas error '' @ str_of_nat (status_code resp)
                          @ '': '' @ body_text resp)), tr1)
             else
               (case body_json resp of
                  None \<Rightarrow> (Inl JSONDecodeError, tr1)
                | Some data \<Rightarrow>
                    (case items_and_total (float_of_str wb) data of
                       Inl e \<Rightarrow> (Inl e, tr1)
                     | Inr (its, total_calories) \<Rightarrow> (Inr (data, total_calories), tr1))))"

text \<open>\<^verbatim>\<open>get_calories_from_query\<close> of \<^verbatim>\<open>main.py\<close>: the total and the items.\<close>

definition get_calories_from_query :: "web \<Rightarrow> string \<Rightarrow> string \<Rightarrow> call list
    \<Rightarrow> (exn + real \<times> json) \<times> call list" where
  "get_calories_from_query wb api_key query tr =
     (let url = api_url @ quote wb query;
          tr1 = tr @ [HttpGet url]
      in case http_get wb url (Some api_key) of
           Inl f \<Rightarrow> (Inl (RequestException f), tr1)
         | Inr response \<Rightarrow>
             if status_code response \<noteq> 200
             then (Inl (RuntimeError (''CalorieNinjas error: '' @ str_of_nat (status_code response)
                          @ '' '' @ body_text response)), tr1)
             else
               (case body_json response of
                  None \<Rightarrow> (Inl JSONDecodeError, tr1)
                | Some data \<Rightarrow>
                    (case items_and_total (float_of_str wb) data of
                       Inl e \<Rightarrow> (Inl e, tr1)
                     | Inr (its, total_calories) \<Rightarrow> (Inr (total_calories, its), tr1))))"

section \<open>\<^verbatim>\<open>app.py\<close>: the script run\<close>

definition app_client :: "string option \<Rightarrow> client option" where
  "app_client gemini_api_key =
     (case gemini_api_key of
        None \<Rightarrow> None
      | Some k \<Rightarrow> if truthy k then Some (Client k) else None)"

text \<open>
  One run of the script of \<^verbatim>\<open>app.py\<close>, from the two keys read from the environment, the file
  the user chose and whether the button was pressed. No line of the file removes the
  temporary file.
\<close>

definition app_script :: "string option \<Rightarrow> string option \<Rightarrow> provider \<Rightarrow> web \<Rightarrow> tempfile_lib
    \<Rightarrow> uploaded_file option \<Rightarrow> bool \<Rightarrow> world \<Rightarrow> world" where
  "app_script gemini_api_key calorie_ninjas_api_key prov wb tf chosen button w =
     (let wa = (if \<not> truthy_opt gemini_api_key then show_ui ShownConfigError w else w);
          wb0 = (if \<not> truthy_opt calorie_ninjas_api_key then show_ui ShownConfigError wa else wa);
          uploaded_image = file_uploader [''png'', ''jpg'', ''jpeg''] chosen;
          w0 = (if uploaded_image \<noteq> None then show_ui ShownImage wb0 else wb0)
      in if \<not> button then w0
         else
           (case uploaded_image of
              None \<Rightarrow> show_ui ShownWarning w0
            | Some up \<Rightarrow>
                if \<not> (truthy_opt gemini_api_key \<and> truthy_opt calorie_ninjas_api_key)
                then show_ui ShownConfigError w0
                else
                  (case named_temporary_file tf ''.png'' of
                     Inl d \<Rightarrow> show_ui (ShownError (OSError d)) w0
                   | Inr tmp_path \<Rightarrow>
                       (let w1 = create_tmp tmp_path w0
                        in case tmp_write tf tmp_path (getvalue up) of
                             Some d \<Rightarrow> show_ui (ShownError (OSError d)) w1
                           | None \<Rightarrow>
                               (let w2 = wrote_tmp tmp_path (getvalue up) w1
                                in case app_build_food_query_from_image (app_client gemini_api_key)
                                          prov tmp_path (trace w2) of
                                     (Inl e, tr) \<Rightarrow> show_ui (ShownError e) (w2\<lparr>trace := tr\<rparr>)
                                   | (Inr query, tr) \<Rightarrow>
                                       (case call_calorieninjas wb calorie_ninjas_api_key query tr of
                                          (Inl e, tr') \<Rightarrow>
                                            show_ui (ShownError e)
                                              (show_ui (ShownQuery query) (w2\<lparr>trace := tr'\<rparr>))
                                        | (Inr (data, total_calories), tr') \<Rightarrow>
                                            show_ui (ShownTotal total_calories data)
                                              (show_ui (ShownQuery query)
                                                 (w2\<lparr>trace := tr'\<rparr>))))))))"

section \<open>\<^verbatim>\<open>main.py\<close>: the module-level credentials\<close>

text \<open>
  \<^verbatim>\<open>os.environ.get(k, d)\<close> gives \<open>d\<close> only when \<open>k\<close> is not set. The two defaults of
  \<^verbatim>\<open>main.py\<close> are credentials written into the file; they are arguments here, and the
  theorems ask of them only what the source's literals have: they are not empty.
\<close>

definition environ_get :: "(string \<rightharpoonup> string) \<Rightarrow> string \<Rightarrow> string \<Rightarrow> string" where
  "environ_get environ k d = (case environ k of None \<Rightarrow> d | Some v \<Rightarrow> v)"

definition cli_module :: "string \<Rightarrow> string \<Rightarrow> (string \<rightharpoonup> string) \<Rightarrow> exn + client \<times> string" where
  "cli_module gemini_default ninjas_default environ =
     (let gemini_api_key = environ_get environ ''GEMINI_API_KEY'' gemini_default;
          calorie_ninjas_api_key = environ_get environ ''CALORIE_NINJAS_API_KEY'' ninjas_default
      in if \<not> truthy gemini_api_key
         then Inl (RuntimeError ''Please set GEMINI_API_KEY environment variable.'')
         else if \<not> truthy calorie_ninjas_api_key
         then Inl (RuntimeError ''Please set CALORIE_NINJAS_API_KEY environment variable.'')
         else Inr (Client gemini_api_key, calorie_ninjas_api_key))"

section \<open>The specification's vocabulary\<close>

text \<open>
  The specification names four kinds of error; the code raises Python exceptions. This is
  the reading of one on the other used below: the \<^verbatim>\<open>ValueError\<close> of the credential guard and
  the two \<^verbatim>\<open>RuntimeError\<close>s of \<^verbatim>\<open>main.py\<close> for an unset key are configuration errors,
  Pydantic's \<^verbatim>\<open>ValidationError\<close> is the schema validation error, and an exception of the SDK
  or of \<^verbatim>\<open>requests\<close>, as well as the \<^verbatim>\<open>RuntimeError\<close>s the query variant raises for an empty
  query and a non-success status, is a provider error. The specification's fourth kind,
  the invalid input error, is raised by no line of the code.
\<close>

datatype error_kind =
    ConfigurationError
  | ProviderError
  | SchemaValidationError
  | OtherError

definition kind_of :: "exn \<Rightarrow> error_kind" where
  "kind_of e =
     (case e of
        ValueError m \<Rightarrow>
          if m = ''Gemini API Key not configured.'' then ConfigurationError else OtherError
      | RuntimeError m \<Rightarrow>
          if m = ''Please set GEMINI_API_KEY environment variable.''
             \<or> m = ''Please set CALORIE_NINJAS_API_KEY environment variable.''
          then ConfigurationError else ProviderError
      | SDKError f \<Rightarrow> ProviderError
      | RequestException f \<Rightarrow> ProviderError
      | ValidationError v \<Rightarrow> SchemaValidationError
      | _ \<Rightarrow> OtherError)"




























section \<open>Concrete environments\<close>

text \<open>
  A provider whose upload succeeds and whose generation call answers a given text, one
  whose upload times out, and one whose generation call is refused.
\<close>

definition demo_provider :: "string option \<Rightarrow> provider" where
  "demo_provider answer =
     \<lparr>files_upload = (\<lambda>p. Inr ''files/abc''), generate_content = (\<lambda>m f. Inr answer)\<rparr>"

definition upload_timeout_provider :: provider where
  "upload_timeout_provider =
     \<lparr>files_upload = (\<lambda>p. Inl Timeout), generate_content = (\<lambda>m f. Inr None)\<rparr>"

definition refusing_provider :: provider where
  "refusing_provider =
     \<lparr>files_upload = (\<lambda>p. Inr ''files/abc''),
      generate_content = (\<lambda>m f. Inl (BadStatus 503 ''overloaded''))\<rparr>"

text \<open>A library that reads one given text as one given document and \<open>"20"\<close> as 20.\<close>

definition demo_core :: "string \<Rightarrow> json \<Rightarrow> pydantic_core" where
  "demo_core body doc =
     \<lparr>from_json = (\<lambda>s. if s = body then Some doc else None),
      str_as_float = (\<lambda>s. if s = ''20'' then Some 20 else None)\<rparr>"

text \<open>Response bodies and the documents they denote.\<close>

definition demo_body_ok :: string where
  "demo_body_ok = ''{\"items\": [{\"name\": \"egg\", \"quantity_g\": 100, \"calories_kcal\": 155, \"protein_g\": 13, \"carbs_g\": 1, \"fat_g\": 11}], \"total_calories_kcal\": 999, \"total_protein_g\": 13, \"total_carbs_g\": 1, \"total_fat_g\": 11}''"

definition demo_doc_ok :: json where
  "demo_doc_ok =
     JObj [(''items'', JArr [JObj [(''name'', JStr ''egg''), (''quantity_g'', JNum 100),
                                   (''calories_kcal'', JNum 155), (''protein_g'', JNum 13),
                                   (''carbs_g'', JNum 1), (''fat_g'', JNum 11)]]),
           (''total_calories_kcal'', JNum 999), (''total_protein_g'', JNum 13),
           (''total_carbs_g'', JNum 1), (''total_fat_g'', JNum 11)]"







text \<open>Temporary files, uploads and an empty world.\<close>

definition demo_tempfile :: tempfile_lib where
  "demo_tempfile =
     \<lparr>named_temporary_file = (\<lambda>suffix. Inr (''/tmp/tmpk3x9'' @ suffix)),
      tmp_write = (\<lambda>p bytes. None)\<rparr>"

definition demo_response_doc :: json where
  "demo_response_doc =
     JObj [(''items'', JArr [JObj [(''name'', JStr ''egg''), (''calories'', JNum 155)],
                             JObj [(''name'', JStr ''water'')]]),
           (''total_calories'', JNum 999)]"

definition demo_web :: web where
  "demo_web =
     \<lparr>quote = (\<lambda>q. concat (map (\<lambda>c. if c = CHR '' '' then ''%20'' else [c]) q)),
      http_get = (\<lambda>url key. Inr \<lparr>status_code = 200,
          body_text = ''{\"items\": [{\"name\": \"egg\", \"calories\": 155}, {\"name\": \"water\"}], \"total_calories\": 999}'',
          body_json = Some demo_response_doc\<rparr>),
      float_of_str = (\<lambda>s. None)\<rparr>"

definition not_found_web :: web where
  "not_found_web =
     \<lparr>quote = (\<lambda>q. q),
      http_get = (\<lambda>url key. Inr \<lparr>status_code = 404, body_text = ''not found'', body_json = None\<rparr>),
      float_of_str = (\<lambda>s. None)\<rparr>"

definition empty_world :: world where
  "empty_world = \<lparr>files = {}, fs_log = [], trace = [], screen = []\<rparr>"

definition demo_upload :: uploaded_file where
  "demo_upload = \<lparr>file_name = ''meal.png'', getvalue = ''PNG-bytes''\<rparr>"



text \<open>A database that cannot be reached, and one that answers an empty object.\<close>

definition unreachable_web :: web where
  "unreachable_web =
     \<lparr>quote = (\<lambda>q. q),
      http_get = (\<lambda>url key. Inl (ConnectionFailed ''name resolution'')),
      float_of_str = (\<lambda>s. None)\<rparr>"



lemmas demo_env_defs = demo_core_def demo_provider_def

section \<open>The query builders\<close>




lemma build_food_query_trace:
  "snd (build_food_query m msg prov p tr) = tr @ [FilesUpload p]
   \<or> (\<exists>uf. snd (build_food_query m msg prov p tr) = tr @ [FilesUpload p, GenerateContent m uf])"
  by (auto simp: build_food_query_def Let_def split: sum.splits)

lemma build_food_query_failure:
  "(files_upload prov p = Inl f \<longrightarrow>
      build_food_query m msg prov p tr = (Inl (SDKError f), tr @ [FilesUpload p]))
   \<and> (files_upload prov p = Inr uf \<and> generate_content prov m uf = Inl f \<longrightarrow>
      build_food_query m msg prov p tr
        = (Inl (SDKError f), tr @ [FilesUpload p, GenerateContent m uf]))"
  by (simp add: build_food_query_def Let_def)



section \<open>The credentials of \<^verbatim>\<open>main.py\<close>\<close>

text \<open>
  C10, as the code has it. With the two non-empty defaults, \<^verbatim>\<open>main.py\<close> raises the
  \<^verbatim>\<open>RuntimeError\<close> of a credential exactly when that variable is set to the empty string
  (and, for the second, the first is not); when a variable is not set its default is
  used, so with neither set the client is built from the default key.
\<close>

theorem cli_module_raises_iff:
  assumes "gemini_default \<noteq> []" and "ninjas_default \<noteq> []"
  shows "(cli_module gemini_default ninjas_default environ
            = Inl (RuntimeError ''Please set GEMINI_API_KEY environment variable.'')
          \<longleftrightarrow> environ ''GEMINI_API_KEY'' = Some [])
       \<and> (cli_module gemini_default ninjas_default environ
            = Inl (RuntimeError ''Please set CALORIE_NINJAS_API_KEY environment variable.'')
          \<longleftrightarrow> environ ''GEMINI_API_KEY'' \<noteq> Some [] \<and> environ ''CALORIE_NINJAS_API_KEY'' = Some [])
       \<and> (environ ''GEMINI_API_KEY'' \<noteq> Some [] \<and> environ ''CALORIE_NINJAS_API_KEY'' \<noteq> Some []
          \<longrightarrow> cli_module gemini_default ninjas_default environ
              = Inr (Client (environ_get environ ''GEMINI_API_KEY'' gemini_default),
                     environ_get environ ''CALORIE_NINJAS_API_KEY'' ninjas_default))
       \<and> (environ ''GEMINI_API_KEY'' = None \<and> environ ''CALORIE_NINJAS_API_KEY'' = None
          \<longrightarrow> cli_module gemini_default ninjas_default environ
              = Inr (Client gemini_default, ninjas_default))"
  using assms
  by (auto simp: cli_module_def environ_get_def truthy_def Let_def split: option.splits)

theorem cli_module_raises_iff_witness:
  "cli_module ''default-gemini-key'' ''default-ninjas-key'' Map.empty
     = Inr (Client ''default-gemini-key'', ''default-ninjas-key'')
   \<and> cli_module ''default-gemini-key'' ''default-ninjas-key''
        (Map.empty(''CALORIE_NINJAS_API_KEY'' \<mapsto> []))
     = Inl (RuntimeError ''Please set CALORIE_NINJAS_API_KEY environment variable.'')"
  using cli_module_raises_iff [of "''default-gemini-key''" "''default-ninjas-key''" Map.empty]
        cli_module_raises_iff [of "''default-gemini-key''" "''default-ninjas-key''"
          "Map.empty(''CALORIE_NINJAS_API_KEY'' \<mapsto> [])"]
  by (simp add: environ_get_def)

text \<open>
  C10, as stated, fails: with \<^verbatim>\<open>GEMINI_API_KEY\<close> set to the empty string the default is not
  used, the key is falsy and the \<^verbatim>\<open>RuntimeError\<close> is raised.
\<close>

theorem cli_module_empty_variable_counterexample:
  "cli_module ''default-gemini-key'' ''default-ninjas-key'' (Map.empty(''GEMINI_API_KEY'' \<mapsto> []))
     = Inl (RuntimeError ''Please set GEMINI_API_KEY environment variable.'')"
  by (simp add: cli_module_def environ_get_def truthy_def)

section \<open>Validation against the schema\<close>

subsection \<open>A conformant body is returned field by field\<close>

lemma ap_Inr_iff: "ap rf rx = Inr y \<longleftrightarrow> (\<exists>f x. rf = Inr f \<and> rx = Inr x \<and> y = f x)"
  by (auto simp: ap_def split: sum.splits)


lemma at_loc_Inr_iff [simp]: "at_loc l r = Inr v \<longleftrightarrow> r = Inr v"
  by (auto simp: at_loc_def split: sum.splits)








subsection \<open>What the validator accepts\<close>









subsection \<open>A failed validation names at least one field\<close>












subsection \<open>An omitted required key is never accepted\<close>






subsection \<open>The estimation call\<close>

lemma estimate_answer:
  "files_upload prov p = Inr uf \<Longrightarrow> generate_content prov ''gemini-2.5-pro'' uf = Inr answer \<Longrightarrow>
   estimate_nutrition_with_gemini pc (Some c) prov p tr
     = (model_validate_json pc answer,
        tr @ [FilesUpload p, GenerateContent ''gemini-2.5-pro'' uf])"
  by (simp add: estimate_nutrition_with_gemini_def Let_def)



subsection \<open>Conformant bodies\<close>



subsection \<open>No bound on the numbers\<close>







subsection \<open>Coercion, and what a schema error carries\<close>



section \<open>The credential guard\<close>

text \<open>
  C2. Without a client, \<^verbatim>\<open>estimate\<close> fails with the configuration error and the trace of
  external calls is as it was: no upload and no generation call was made, and a run of
  \<^verbatim>\<open>main\<close> touches neither the provider nor the file system. With a client, whatever error
  the call ends in is not the configuration error.
\<close>

theorem estimate_without_client:
  "estimate_nutrition_with_gemini pc None prov image_path tr
     = (Inl (ValueError ''Gemini API Key not configured.''), tr)
   \<and> kind_of (ValueError ''Gemini API Key not configured.'') = ConfigurationError
   \<and> trace (main pc None prov tf chosen b w) = trace w
   \<and> fs_log (main pc None prov tf chosen b w) = fs_log w
   \<and> (\<forall>c e. fst (estimate_nutrition_with_gemini pc (Some c) prov image_path tr) = Inl e
         \<longrightarrow> kind_of e \<noteq> ConfigurationError)"
  by (auto simp: estimate_nutrition_with_gemini_def kind_of_def model_validate_json_def Let_def
        main_def show_ui_def split: sum.splits option.splits)

theorem estimate_without_client_witness:
  "estimate_nutrition_with_gemini (demo_core [] JNull) None upload_timeout_provider
       ''/tmp/meal.png'' []
     = (Inl (ValueError ''Gemini API Key not configured.''), [])
   \<and> fst (estimate_nutrition_with_gemini (demo_core [] JNull) (Some (Client ''k''))
            upload_timeout_provider ''/tmp/meal.png'' [])
       = Inl (SDKError Timeout)
   \<and> kind_of (SDKError Timeout) \<noteq> ConfigurationError"
proof -
  have e: "fst (estimate_nutrition_with_gemini (demo_core [] JNull) (Some (Client ''k''))
                 upload_timeout_provider ''/tmp/meal.png'' [])
           = Inl (SDKError Timeout)"
    by (simp add: estimate_nutrition_with_gemini_def upload_timeout_provider_def)
  show ?thesis
    using e estimate_without_client [of "demo_core [] JNull" upload_timeout_provider
              "''/tmp/meal.png''" "[]" demo_tempfile None False empty_world]
    by auto
qed

lemma gemini_only_client_None_iff:
  "gemini_only_client key = None
   \<longleftrightarrow> key = None \<or> key = Some [] \<or> key = Some ''YOUR_GEMINI_KEY_HERE''"
  by (auto simp: gemini_only_client_def truthy_def split: option.splits)

section \<open>The total of the nutrition database\<close>









section \<open>Provider failures and the number of attempts\<close>

lemma estimate_trace:
  "snd (estimate_nutrition_with_gemini pc (Some c) prov p tr) = tr @ [FilesUpload p]
   \<or> (\<exists>uf. snd (estimate_nutrition_with_gemini pc (Some c) prov p tr)
              = tr @ [FilesUpload p, GenerateContent ''gemini-2.5-pro'' uf])"
  by (auto simp: estimate_nutrition_with_gemini_def Let_def split: sum.splits)

lemma estimate_failure:
  "(files_upload prov p = Inl f \<longrightarrow>
      estimate_nutrition_with_gemini pc (Some c) prov p tr
        = (Inl (SDKError f), tr @ [FilesUpload p]))
   \<and> (files_upload prov p = Inr uf \<and> generate_content prov ''gemini-2.5-pro'' uf = Inl f \<longrightarrow>
      estimate_nutrition_with_gemini pc (Some c) prov p tr
        = (Inl (SDKError f), tr @ [FilesUpload p, GenerateContent ''gemini-2.5-pro'' uf]))"
  by (simp add: estimate_nutrition_with_gemini_def Let_def)

lemma call_calorieninjas_trace:
  "snd (call_calorieninjas wb k q tr) = tr @ [HttpGet (api_url @ quote wb q)]"
  by (auto simp: call_calorieninjas_def Let_def split: sum.splits option.splits prod.splits)

lemma get_calories_from_query_trace:
  "snd (get_calories_from_query wb k q tr) = tr @ [HttpGet (api_url @ quote wb q)]"
  by (auto simp: get_calories_from_query_def Let_def split: sum.splits option.splits prod.splits)

lemma call_calorieninjas_failure:
  "(http_get wb (api_url @ quote wb q) k = Inl f \<longrightarrow>
      fst (call_calorieninjas wb k q tr) = Inl (RequestException f))
   \<and> (http_get wb (api_url @ quote wb q) k = Inr resp \<and> status_code resp \<noteq> 200 \<longrightarrow>
      fst (call_calorieninjas wb k q tr)
        = Inl (RuntimeError (''CalorieNinjas error '' @ str_of_nat (status_code resp)
                 @ '': '' @ body_text resp)))"
  by (simp add: call_calorieninjas_def Let_def)

text \<open>
  C7, as the code has it. A transport or non-success-status failure of the upload or of the
  generation call ends \<^verbatim>\<open>estimate\<close> and \<^verbatim>\<open>build_food_query_from_image\<close> with the SDK's
  exception, and one of the database request ends \<^verbatim>\<open>call_calorieninjas\<close> with the exception
  of \<^verbatim>\<open>requests\<close> or with the \<^verbatim>\<open>RuntimeError\<close> that carries status and body: provider errors,
  all of them. Each call makes one upload and at most one generation request, or one GET,
  and repeats none. An absent or empty response text is not a provider error in
  \<^verbatim>\<open>estimate\<close>: it goes to the validator and fails with the validation error.
\<close>

theorem provider_failure_single_attempt:
  "(\<forall>f. files_upload prov p = Inl f \<longrightarrow>
       estimate_nutrition_with_gemini pc (Some c) prov p tr
         = (Inl (SDKError f), tr @ [FilesUpload p]))
   \<and> (\<forall>uf f. files_upload prov p = Inr uf
          \<and> generate_content prov ''gemini-2.5-pro'' uf = Inl f \<longrightarrow>
       estimate_nutrition_with_gemini pc (Some c) prov p tr
         = (Inl (SDKError f), tr @ [FilesUpload p, GenerateContent ''gemini-2.5-pro'' uf]))
   \<and> (snd (estimate_nutrition_with_gemini pc (Some c) prov p tr) = tr @ [FilesUpload p]
       \<or> (\<exists>uf. snd (estimate_nutrition_with_gemini pc (Some c) prov p tr)
                  = tr @ [FilesUpload p, GenerateContent ''gemini-2.5-pro'' uf]))
   \<and> (\<forall>uf answer. files_upload prov p = Inr uf
          \<and> generate_content prov ''gemini-2.5-pro'' uf = Inr answer
          \<and> (answer = None \<or> answer = Some [] \<and> from_json pc [] = None) \<longrightarrow>
       (\<exists>v. fst (estimate_nutrition_with_gemini pc (Some c) prov p tr) = Inl (ValidationError v)))
   \<and> (\<forall>f. files_upload prov p = Inl f \<longrightarrow>
       app_build_food_query_from_image (Some c) prov p tr
         = (Inl (SDKError f), tr @ [FilesUpload p]))
   \<and> (\<forall>uf f. files_upload prov p = Inr uf
          \<and> generate_content prov ''gemini-2.5-flash'' uf = Inl f \<longrightarrow>
       app_build_food_query_from_image (Some c) prov p tr
         = (Inl (SDKError f), tr @ [FilesUpload p, GenerateContent ''gemini-2.5-flash'' uf]))
   \<and> (snd (app_build_food_query_from_image (Some c) prov p tr) = tr @ [FilesUpload p]
       \<or> (\<exists>uf. snd (app_build_food_query_from_image (Some c) prov p tr)
                  = tr @ [FilesUpload p, GenerateContent ''gemini-2.5-flash'' uf]))
   \<and> (\<forall>f. http_get wb (api_url @ quote wb q) k = Inl f \<longrightarrow>
       fst (call_calorieninjas wb k q tr) = Inl (RequestException f))
   \<and> (\<forall>resp. http_get wb (api_url @ quote wb q) k = Inr resp \<and> status_code resp \<noteq> 200 \<longrightarrow>
       fst (call_calorieninjas wb k q tr)
         = Inl (RuntimeError (''CalorieNinjas error '' @ str_of_nat (status_code resp)
                  @ '': '' @ body_text resp)))
   \<and> snd (call_calorieninjas wb k q tr) = tr @ [HttpGet (api_url @ quote wb q)]
   \<and> (\<forall>f m. kind_of (SDKError f) = ProviderError \<and> kind_of (RequestException f) = ProviderError
          \<and> kind_of (RuntimeError (''CalorieNinjas error '' @ m)) = ProviderError
          \<and> kind_of (RuntimeError ''Gemini returned an empty query.'') = ProviderError)"
proof -
  have 1: "\<forall>f. files_upload prov p = Inl f \<longrightarrow>
       estimate_nutrition_with_gemini pc (Some c) prov p tr
         = (Inl (SDKError f), tr @ [FilesUpload p])"
    using estimate_failure by blast
  have 2: "\<forall>uf f. files_upload prov p = Inr uf
          \<and> generate_content prov ''gemini-2.5-pro'' uf = Inl f \<longrightarrow>
       estimate_nutrition_with_gemini pc (Some c) prov p tr
         = (Inl (SDKError f), tr @ [FilesUpload p, GenerateContent ''gemini-2.5-pro'' uf])"
    using estimate_failure by blast
  note 3 = estimate_trace [of pc c prov p tr]
  have 4: "\<forall>uf answer. files_upload prov p = Inr uf
          \<and> generate_content prov ''gemini-2.5-pro'' uf = Inr answer
          \<and> (answer = None \<or> answer = Some [] \<and> from_json pc [] = None) \<longrightarrow>
       (\<exists>v. fst (estimate_nutrition_with_gemini pc (Some c) prov p tr) = Inl (ValidationError v))"
    by (auto simp: estimate_answer model_validate_json_def)
  have 5: "\<forall>f. files_upload prov p = Inl f \<longrightarrow>
       app_build_food_query_from_image (Some c) prov p tr
         = (Inl (SDKError f), tr @ [FilesUpload p])"
    using build_food_query_failure by (simp add: app_build_food_query_from_image_def)
  have 6: "\<forall>uf f. files_upload prov p = Inr uf
          \<and> generate_content prov ''gemini-2.5-flash'' uf = Inl f \<longrightarrow>
       app_build_food_query_from_image (Some c) prov p tr
         = (Inl (SDKError f), tr @ [FilesUpload p, GenerateContent ''gemini-2.5-flash'' uf])"
    using build_food_query_failure by (simp add: app_build_food_query_from_image_def)
  have 7: "snd (app_build_food_query_from_image (Some c) prov p tr) = tr @ [FilesUpload p]
       \<or> (\<exists>uf. snd (app_build_food_query_from_image (Some c) prov p tr)
                  = tr @ [FilesUpload p, GenerateContent ''gemini-2.5-flash'' uf])"
    using build_food_query_trace [of "''gemini-2.5-flash''" _ prov p tr]
    by (simp add: app_build_food_query_from_image_def)
  have 8: "\<forall>f. http_get wb (api_url @ quote wb q) k = Inl f \<longrightarrow>
       fst (call_calorieninjas wb k q tr) = Inl (RequestException f)"
    using call_calorieninjas_failure by blast
  have 9: "\<forall>resp. http_get wb (api_url @ quote wb q) k = Inr resp \<and> status_code resp \<noteq> 200 \<longrightarrow>
       fst (call_calorieninjas wb k q tr)
         = Inl (RuntimeError (''CalorieNinjas error '' @ str_of_nat (status_code resp)
                  @ '': '' @ body_text resp))"
    using call_calorieninjas_failure by blast
  note 10 = call_calorieninjas_trace [of wb k q tr]
  have 11: "\<forall>f m. kind_of (SDKError f) = ProviderError \<and> kind_of (RequestException f) = ProviderError
          \<and> kind_of (RuntimeError (''CalorieNinjas error '' @ m)) = ProviderError
          \<and> kind_of (RuntimeError ''Gemini returned an empty query.'') = ProviderError"
    by (simp add: kind_of_def)
  from 1 2 3 4 5 6 7 8 9 10 11 show ?thesis by (intro conjI)
qed

theorem provider_failure_single_attempt_witness:
  "estimate_nutrition_with_gemini (demo_core [] JNull) (Some (Client ''k'')) refusing_provider
       ''/tmp/meal.png'' []
     = (Inl (SDKError (BadStatus 503 ''overloaded'')),
        [FilesUpload ''/tmp/meal.png'', GenerateContent ''gemini-2.5-pro'' ''files/abc''])
   \<and> estimate_nutrition_with_gemini (demo_core [] JNull) (Some (Client ''k''))
         upload_timeout_provider ''/tmp/meal.png'' []
     = (Inl (SDKError Timeout), [FilesUpload ''/tmp/meal.png''])
   \<and> fst (call_calorieninjas not_found_web (Some ''n'') ''2 eggs'' [])
     = Inl (RuntimeError ''CalorieNinjas error 404: not found'')
   \<and> kind_of (RuntimeError ''CalorieNinjas error 404: not found'') = ProviderError
   \<and> fst (call_calorieninjas unreachable_web (Some ''n'') ''2 eggs'' [])
     = Inl (RequestException (ConnectionFailed ''name resolution''))
   \<and> app_build_food_query_from_image (Some (Client ''k'')) refusing_provider ''/tmp/meal.png'' []
     = (Inl (SDKError (BadStatus 503 ''overloaded'')),
        [FilesUpload ''/tmp/meal.png'', GenerateContent ''gemini-2.5-flash'' ''files/abc''])
   \<and> (\<exists>v. fst (estimate_nutrition_with_gemini (demo_core demo_body_ok demo_doc_ok)
                  (Some (Client ''k'')) (demo_provider None) ''/tmp/meal.png'' [])
             = Inl (ValidationError v))"
proof -
  have u: "files_upload refusing_provider ''/tmp/meal.png'' = Inr ''files/abc''"
      "generate_content refusing_provider ''gemini-2.5-pro'' ''files/abc''
         = Inl (BadStatus 503 ''overloaded'')"
      "files_upload upload_timeout_provider ''/tmp/meal.png'' = Inl Timeout"
    by (simp_all add: refusing_provider_def upload_timeout_provider_def)
  let ?resp = "\<lparr>status_code = 404, body_text = ''not found'', body_json = None\<rparr>"
  have h: "http_get not_found_web (api_url @ quote not_found_web ''2 eggs'') (Some ''n'') = Inr ?resp"
      "status_code ?resp \<noteq> 200" "status_code ?resp = 404" "body_text ?resp = ''not found''"
    by (simp_all add: not_found_web_def)
  have g: "generate_content refusing_provider ''gemini-2.5-flash'' ''files/abc''
         = Inl (BadStatus 503 ''overloaded'')"
    by (simp add: refusing_provider_def)
  have x: "http_get unreachable_web (api_url @ quote unreachable_web ''2 eggs'') (Some ''n'')
         = Inl (ConnectionFailed ''name resolution'')"
    by (simp add: unreachable_web_def)
  have d: "files_upload (demo_provider None) ''/tmp/meal.png'' = Inr ''files/abc''"
      "generate_content (demo_provider None) ''gemini-2.5-pro'' ''files/abc'' = Inr None"
    by (simp_all add: demo_provider_def)
  note a = provider_failure_single_attempt [of refusing_provider "''/tmp/meal.png''"
        "demo_core [] JNull" "Client ''k''" "[]" not_found_web "''2 eggs''" "Some ''n''"]
  note b = provider_failure_single_attempt [of upload_timeout_provider "''/tmp/meal.png''"
        "demo_core [] JNull" "Client ''k''" "[]" unreachable_web "''2 eggs''" "Some ''n''"]
  note c = provider_failure_single_attempt [of "demo_provider None" "''/tmp/meal.png''"
        "demo_core demo_body_ok demo_doc_ok" "Client ''k''" "[]" not_found_web "''2 eggs''"
        "Some ''n''"]
  from a u(1,2) have 1: "estimate_nutrition_with_gemini (demo_core [] JNull)
       (Some (Client ''k'')) refusing_provider ''/tmp/meal.png'' []
     = (Inl (SDKError (BadStatus 503 ''overloaded'')),
        [] @ [FilesUpload ''/tmp/meal.png'', GenerateContent ''gemini-2.5-pro'' ''files/abc''])"
    by blast
  from b u(3) have 2: "estimate_nutrition_with_gemini (demo_core [] JNull) (Some (Client ''k''))
         upload_timeout_provider ''/tmp/meal.png'' []
     = (Inl (SDKError Timeout), [] @ [FilesUpload ''/tmp/meal.png''])"
    by blast
  from a h(1,2) have 3: "fst (call_calorieninjas not_found_web (Some ''n'') ''2 eggs'' [])
     = Inl (RuntimeError (''CalorieNinjas error ''
              @ str_of_nat (status_code ?resp) @ '': '' @ body_text ?resp))"
    by blast
  from b x have 4: "fst (call_calorieninjas unreachable_web (Some ''n'') ''2 eggs'' [])
     = Inl (RequestException (ConnectionFailed ''name resolution''))"
    by blast
  from a u(1) g have 5: "app_build_food_query_from_image (Some (Client ''k'')) refusing_provider
       ''/tmp/meal.png'' []
     = (Inl (SDKError (BadStatus 503 ''overloaded'')),
        [] @ [FilesUpload ''/tmp/meal.png'', GenerateContent ''gemini-2.5-flash'' ''files/abc''])"
    by blast
  from c d have 6: "\<exists>v. fst (estimate_nutrition_with_gemini (demo_core demo_body_ok demo_doc_ok)
                  (Some (Client ''k'')) (demo_provider None) ''/tmp/meal.png'' [])
             = Inl (ValidationError v)"
    by blast
  have n: "str_of_nat 404 = ''404''"
    by simp
  from a have 7: "kind_of (RuntimeError (''CalorieNinjas error '' @ ''404: not found''))
                    = ProviderError"
    by blast
  from 1 2 3 4 5 6 7 show ?thesis
    by (simp add: h(3,4) n)
qed

text \<open>
  C7, as stated, fails: for an empty response text \<^verbatim>\<open>estimate\<close> fails with the validation
  error, the very kind the claim sets the provider error apart from.
\<close>

theorem empty_text_is_validation_error_counterexample:
  "fst (estimate_nutrition_with_gemini (demo_core demo_body_ok demo_doc_ok) (Some (Client ''k''))
          (demo_provider (Some [])) ''/tmp/meal.png'' [])
     = Inl (ValidationError (JsonInvalid []))
   \<and> kind_of (ValidationError (JsonInvalid [])) = SchemaValidationError
   \<and> kind_of (ValidationError (JsonInvalid [])) \<noteq> ProviderError"
  by (simp add: estimate_nutrition_with_gemini_def demo_env_defs demo_body_ok_def
      model_validate_json_def kind_of_def)

section \<open>Temporary files\<close>

lemma show_ui_fields [simp]:
  "files (show_ui u w) = files w" "fs_log (show_ui u w) = fs_log w"
  "trace (show_ui u w) = trace w"
  by (simp_all add: show_ui_def)


lemma finally_cleanup_Some:
  "p \<in> files w \<Longrightarrow>
   files (finally_cleanup (Some p) w) = files w - {p}
   \<and> fs_log (finally_cleanup (Some p) w) = fs_log w @ [Removed p]
   \<and> trace (finally_cleanup (Some p) w) = trace w"
  by (simp add: finally_cleanup_def)

text \<open>The ends of a run of \<^verbatim>\<open>main\<close> that reached the temporary file.\<close>

lemma main_tmp_written:
  assumes "file_uploader [''jpg'', ''jpeg'', ''png'', ''webp''] chosen = Some up"
      and "named_temporary_file tf (CHR ''.'' # split_last (file_name up)) = Inr tmp_path"
      and "tmp_write tf tmp_path (getvalue up) = None"
  shows "files (main pc (Some c) prov tf chosen True w) = files w - {tmp_path}
       \<and> fs_log (main pc (Some c) prov tf chosen True w)
           = fs_log w @ [Created tmp_path, Wrote tmp_path (getvalue up), Removed tmp_path]
       \<and> trace (main pc (Some c) prov tf chosen True w)
           = snd (estimate_nutrition_with_gemini pc (Some c) prov tmp_path (trace w))"
proof -
  obtain r tr where e: "estimate_nutrition_with_gemini pc (Some c) prov tmp_path (trace w) = (r, tr)"
    by (cases "estimate_nutrition_with_gemini pc (Some c) prov tmp_path (trace w)")
  let ?w2 = "wrote_tmp tmp_path (getvalue up) (create_tmp tmp_path (show_ui ShownImage w))"
  have t: "trace ?w2 = trace w"
    by (simp add: wrote_tmp_def create_tmp_def)
  have m: "main pc (Some c) prov tf chosen True w
      = finally_cleanup (Some tmp_path)
          (show_ui (case r of Inl e \<Rightarrow> ShownError e | Inr est \<Rightarrow> ShownEstimate est)
             (?w2\<lparr>trace := tr\<rparr>))"
    using e by (simp add: main_def assms Let_def t split: sum.splits)
  have i: "tmp_path \<in> files (show_ui (case r of Inl e \<Rightarrow> ShownError e | Inr est \<Rightarrow> ShownEstimate est)
             (?w2\<lparr>trace := tr\<rparr>))"
    by (simp add: wrote_tmp_def create_tmp_def)
  show ?thesis
    unfolding m using finally_cleanup_Some [OF i]
    by (simp add: wrote_tmp_def create_tmp_def e)
qed

lemma main_tmp_write_fails:
  assumes "file_uploader [''jpg'', ''jpeg'', ''png'', ''webp''] chosen = Some up"
      and "named_temporary_file tf (CHR ''.'' # split_last (file_name up)) = Inr tmp_path"
      and "tmp_write tf tmp_path (getvalue up) = Some d"
  shows "files (main pc (Some c) prov tf chosen True w) = insert tmp_path (files w)
       \<and> fs_log (main pc (Some c) prov tf chosen True w) = fs_log w @ [Created tmp_path]"
  by (simp add: main_def assms Let_def finally_cleanup_def create_tmp_def)



text \<open>In \<^verbatim>\<open>app.py\<close> a created file stays.\<close>

lemma app_script_keeps_tmp:
  assumes "file_uploader [''png'', ''jpg'', ''jpeg''] chosen = Some up"
      and "truthy_opt gk" and "truthy_opt nk"
      and "named_temporary_file tf ''.png'' = Inr tmp_path"
  shows "files (app_script gk nk prov wb tf chosen True w) = insert tmp_path (files w)"
  using assms
  by (auto simp: app_script_def Let_def create_tmp_def wrote_tmp_def
           split: option.splits sum.splits prod.splits)

lemma app_script_files_grow: "files w \<subseteq> files (app_script gk nk prov wb tf chosen b w)"
  by (auto simp: app_script_def Let_def create_tmp_def wrote_tmp_def
           split: option.splits sum.splits prod.splits)

lemma app_script_fs_log:
  assumes "file_uploader [''png'', ''jpg'', ''jpeg''] chosen = Some up"
      and "truthy_opt gk" and "truthy_opt nk"
      and "named_temporary_file tf ''.png'' = Inr tmp_path"
      and "tmp_write tf tmp_path (getvalue up) = None"
  shows "fs_log (app_script gk nk prov wb tf chosen True w)
           = fs_log w @ [Created tmp_path, Wrote tmp_path (getvalue up)]"
  using assms
  by (auto simp: app_script_def Let_def create_tmp_def wrote_tmp_def
           split: option.splits sum.splits prod.splits)

lemma demo_upload_accepted:
  "file_uploader [''png'', ''jpg'', ''jpeg''] (Some demo_upload) = Some demo_upload"
  "file_uploader [''jpg'', ''jpeg'', ''png'', ''webp''] (Some demo_upload) = Some demo_upload"
  by (simp_all add: file_uploader_def extension_def demo_upload_def lower_char_def)


lemma demo_tempfile_png:
  "named_temporary_file demo_tempfile ''.png'' = Inr ''/tmp/tmpk3x9.png''"
  "tmp_write demo_tempfile p bytes = None"
  by (simp_all add: demo_tempfile_def)

text \<open>
  C4 at an input where it fails. In \<^verbatim>\<open>app.py\<close>, with both keys set, an uploaded
  \<^verbatim>\<open>meal.png\<close> and every call succeeding, the run ends with the temporary file still on the
  file system: it was created and written and nothing removed it. The same upload through
  \<^verbatim>\<open>main\<close> of \<^verbatim>\<open>app_gemini_only.py\<close> leaves no file.
\<close>

theorem app_script_leaves_temporary_file:
  "files (app_script (Some ''g-key'') (Some ''n-key'') (demo_provider (Some ''2 eggs''))
            demo_web demo_tempfile (Some demo_upload) True empty_world)
     = {''/tmp/tmpk3x9.png''}
   \<and> fs_log (app_script (Some ''g-key'') (Some ''n-key'') (demo_provider (Some ''2 eggs''))
            demo_web demo_tempfile (Some demo_upload) True empty_world)
     = [Created ''/tmp/tmpk3x9.png'', Wrote ''/tmp/tmpk3x9.png'' ''PNG-bytes'']
   \<and> files (main (demo_core demo_body_ok demo_doc_ok) (Some (Client ''g-key''))
            (demo_provider (Some demo_body_ok)) demo_tempfile (Some demo_upload) True empty_world)
     = {}"
proof -
  have k: "truthy_opt (Some ''g-key'')" "truthy_opt (Some ''n-key'')"
    by (simp_all add: truthy_opt_def truthy_def)
  have s: "CHR ''.'' # split_last (file_name demo_upload) = ''.png''"
    by (simp add: split_last_def demo_upload_def)
  have t: "named_temporary_file demo_tempfile (CHR ''.'' # split_last (file_name demo_upload))
             = Inr ''/tmp/tmpk3x9.png''"
    unfolding s by (rule demo_tempfile_png)
  have g: "getvalue demo_upload = ''PNG-bytes''"
    by (simp add: demo_upload_def)
  show ?thesis
    using app_script_keeps_tmp [OF demo_upload_accepted(1) k demo_tempfile_png(1),
            of "demo_provider (Some ''2 eggs'')" demo_web empty_world]
          app_script_fs_log [OF demo_upload_accepted(1) k demo_tempfile_png,
            of "demo_provider (Some ''2 eggs'')" demo_web empty_world]
          main_tmp_written [OF demo_upload_accepted(2) t demo_tempfile_png(2),
            of "demo_core demo_body_ok demo_doc_ok" "Client ''g-key''"
               "demo_provider (Some demo_body_ok)" empty_world]
    by (simp add: empty_world_def g)
qed

section \<open>What the upload widget lets through\<close>




end
